theory Spec2Isabelle
  imports Main
begin

section \<open>Values that cross the boundary of the planner\<close>

text \<open>
  A value thrown in the TypeScript code is either an \<^verbatim>\<open>Error\<close> object, of which the
  code reads \<^verbatim>\<open>name\<close> and \<^verbatim>\<open>message\<close>, or some other value, of which the code
  only takes \<^verbatim>\<open>String(error)\<close>.
\<close>

datatype js_error =
    JsError (err_name: string) (err_message: string)
  | JsThrown string

text \<open>\<^verbatim>\<open>error instanceof Error ? error.message : String(error)\<close> (planner.ts, line 145).\<close>

fun errorMessage_of :: "js_error \<Rightarrow> string" where
  "errorMessage_of (JsError n m) = m"
| "errorMessage_of (JsThrown s) = s"

text \<open>
  Raw JSON, as \<^verbatim>\<open>response.json()\<close> returns it. An object is the list of its own
  properties; \<^verbatim>\<open>map_of\<close> reads a property, and a missing one is \<^verbatim>\<open>undefined\<close>.
  The schema accepts no number, so the value of a number is never inspected.
\<close>

datatype json =
    JNull
  | JBool bool
  | JNumber int
  | JString string
  | JArray "json list"
  | JObject "(string \<times> json) list"

text \<open>
  \<^verbatim>\<open>PlannerOutput\<close>. The field \<^verbatim>\<open>done\<close> is written \<open>done_flag\<close>, since
  \<^theory_text>\<open>done\<close> is a command of the proof language.
\<close>

record planner_output =
  observation :: string
  challenges :: string
  done_flag :: bool
  next_steps :: string
  final_answer :: string
  reasoning :: string
  web_task :: bool

section \<open>plannerOutputSchema (planner.ts, lines 23 to 45)\<close>

text \<open>
  \<^verbatim>\<open>String.prototype.toLowerCase\<close>, on the bytes of the string: the letters A to Z are
  lowered and every other byte is kept. The characters outside ASCII whose lower-case form
  contains an ASCII letter (the Kelvin sign gives k, the dotted capital I gives i) yield
  no letter of \<^verbatim>\<open>'true'\<close> or \<^verbatim>\<open>'false'\<close>, so the two comparisons of the transform
  have the same value on bytes and on code points.
\<close>

definition toLowerCase_char :: "char \<Rightarrow> char" where
  "toLowerCase_char c =
     (let n = (of_char c :: nat) in if 65 \<le> n \<and> n \<le> 90 then char_of (n + 32) else c)"

definition toLowerCase :: "string \<Rightarrow> string" where
  "toLowerCase s = map toLowerCase_char s"

text \<open>
  What is thrown out of \<^verbatim>\<open>plannerOutputSchema.parse\<close>: the \<^verbatim>\<open>ZodError\<close> of the
  library, kept here as the list of the paths of its issues (the empty path is the root),
  or whatever a transform threw, which zod does not catch.
\<close>

datatype thrown =
    Js js_error
  | ZodError "string list list"

text \<open>
  The transform of lines 28 to 32 (and 39 to 43, the same text): the string is lowered and
  compared; anything but the two words throws.
\<close>

definition boolean_transform :: "string \<Rightarrow> js_error + bool" where
  "boolean_transform val =
     (if toLowerCase val = ''true'' then Inr True
      else if toLowerCase val = ''false'' then Inr False
      else Inl (JsError ''Error'' ''Invalid boolean string''))"

text \<open>
  \<^verbatim>\<open>z.string()\<close> on a property: a string is taken as it is, anything else (also a
  missing property) adds an issue at the property's path and parsing goes on.
\<close>

definition z_string ::
  "(string \<rightharpoonup> json) \<Rightarrow> string \<Rightarrow> string list list \<Rightarrow> string list list \<times> string" where
  "z_string obj key issues =
     (case obj key of
        Some (JString s) \<Rightarrow> (issues, s)
      | _ \<Rightarrow> (issues @ [ [key] ], []))"

text \<open>
  \<^verbatim>\<open>z.union([z.boolean(), z.string().transform(...)])\<close> on a property: the first
  member takes a literal boolean; the second takes a string and runs the transform, whose
  throw leaves \<^verbatim>\<open>parse\<close> at once; no member takes any other value, which is an issue.
\<close>

definition z_boolean_or_string ::
  "(string \<rightharpoonup> json) \<Rightarrow> string \<Rightarrow> string list list \<Rightarrow> js_error + string list list \<times> bool" where
  "z_boolean_or_string obj key issues =
     (case obj key of
        Some (JBool b) \<Rightarrow> Inr (issues, b)
      | Some (JString s) \<Rightarrow>
          (case boolean_transform s of
             Inl e \<Rightarrow> Inl e
           | Inr b \<Rightarrow> Inr (issues, b))
      | _ \<Rightarrow> Inr (issues @ [ [key] ], False))"

text \<open>
  \<^verbatim>\<open>plannerOutputSchema.parse\<close>: the properties are read in the order of the schema,
  unknown properties are dropped, and the issues collected on the way are thrown together
  at the end.
\<close>

definition plannerOutputSchema_parse :: "json \<Rightarrow> thrown + planner_output" where
  "plannerOutputSchema_parse raw =
     (case raw of
        JObject props \<Rightarrow>
          (let obj = map_of props;
               (i1, v_observation) = z_string obj ''observation'' [];
               (i2, v_challenges) = z_string obj ''challenges'' i1
           in case z_boolean_or_string obj ''done'' i2 of
                Inl e \<Rightarrow> Inl (Js e)
              | Inr (i3, v_done) \<Rightarrow>
                  (let (i4, v_next_steps) = z_string obj ''next_steps'' i3;
                       (i5, v_final_answer) = z_string obj ''final_answer'' i4;
                       (i6, v_reasoning) = z_string obj ''reasoning'' i5
                   in case z_boolean_or_string obj ''web_task'' i6 of
                        Inl e \<Rightarrow> Inl (Js e)
                      | Inr (i7, v_web_task) \<Rightarrow>
                          if i7 = [] then
                            Inr \<lparr>observation = v_observation, challenges = v_challenges,
                                 done_flag = v_done, next_steps = v_next_steps,
                                 final_answer = v_final_answer, reasoning = v_reasoning,
                                 web_task = v_web_task\<rparr>
                          else Inl (ZodError i7)))
      | _ \<Rightarrow> Inl (ZodError [ [] ]))"

text \<open>
  The specification's reading of "equal case-insensitively", independent of
  \<^verbatim>\<open>toLowerCase\<close>: the spellings of a lower-case word are the words obtained by
  writing each of its letters either as it is or as its capital.
\<close>

definition toUpperCase_char :: "char \<Rightarrow> char" where
  "toUpperCase_char c =
     (let n = (of_char c :: nat) in if 97 \<le> n \<and> n \<le> 122 then char_of (n - 32) else c)"

fun spellings :: "string \<Rightarrow> string list" where
  "spellings [] = [ [] ]"
| "spellings (c # cs) = concat (map (\<lambda>r. [c # r, toUpperCase_char c # r]) (spellings cs))"

section \<open>Messages, context and configuration\<close>

text \<open>
  A message of the conversation: its class and its content, which is a string or a list
  of segments. A segment carries a \<^verbatim>\<open>type\<close>; the code reads \<^verbatim>\<open>text\<close> from the
  segments of type \<^verbatim>\<open>'text'\<close> and nothing from the others.
\<close>

datatype segment =
    TextSegment string
  | ImageUrlSegment string
  | OtherSegment string

datatype content =
    Str string
  | Parts "segment list"

datatype message =
    SystemMessage content
  | HumanMessage content
  | AIMessage content
  | ToolMessage content

fun content_of :: "message \<Rightarrow> content" where
  "content_of (SystemMessage c) = c"
| "content_of (HumanMessage c) = c"
| "content_of (AIMessage c) = c"
| "content_of (ToolMessage c) = c"

record agent_options =
  useVision :: bool
  useVisionForPlanner :: bool

text \<open>
  The part of the execution context that \<^verbatim>\<open>execute\<close> reads; \<open>getMessages\<close> is what
  \<^verbatim>\<open>messageManager.getMessages()\<close> returns.
\<close>

record agent_context =
  nSteps :: nat
  options :: agent_options
  getMessages :: "message list"

text \<open>\<^verbatim>\<open>PlannerConfig\<close> (lines 50 to 53); both properties are optional.\<close>

record planner_config =
  useServerForFirstPlan :: "bool option"
  serverPlanEndpoint :: "string option"

text \<open>
  The agent: \<^verbatim>\<open>this.id\<close>, \<^verbatim>\<open>this.context\<close> (written \<open>ctx\<close>),
  \<^verbatim>\<open>this.plannerConfig\<close> and the system message of \<^verbatim>\<open>this.prompt\<close>.
\<close>

record planner_agent =
  agent_id :: string
  ctx :: agent_context
  plannerConfig :: "planner_config option"
  getSystemMessage :: message

section \<open>What a step leaves behind\<close>

datatype actor = PLANNER

datatype execution_state = STEP_START | STEP_OK | STEP_FAIL

datatype event = Event (ev_actor: actor) (ev_state: execution_state) (ev_message: string)

text \<open>
  A logger call keeps its level and the pieces of its text in order; a value that is
  rendered into the text (\<^verbatim>\<open>'...' + error\<close>, \<^verbatim>\<open>JSON.stringify(plan, null, 2)\<close>) is
  kept as the value.
\<close>

datatype log_arg =
    Text string
  | Rendered thrown
  | Json planner_output

datatype log_entry =
    LogInfo "log_arg list"
  | LogError "log_arg list"

fun is_error_entry :: "log_entry \<Rightarrow> bool" where
  "is_error_entry (LogError _) = True"
| "is_error_entry (LogInfo _) = False"

datatype call =
    Fetch string
  | Invoke "message list"

record trace =
  events :: "event list"
  logs :: "log_entry list"
  calls :: "call list"

definition no_trace :: trace where
  "no_trace = \<lparr>events = [], logs = [], calls = []\<rparr>"

definition emitEvent :: "actor \<Rightarrow> execution_state \<Rightarrow> string \<Rightarrow> trace \<Rightarrow> trace" where
  "emitEvent a s m t = t\<lparr>events := events t @ [Event a s m]\<rparr>"

definition logger_info :: "log_arg list \<Rightarrow> trace \<Rightarrow> trace" where
  "logger_info args t = t\<lparr>logs := logs t @ [LogInfo args]\<rparr>"

definition logger_error :: "log_arg list \<Rightarrow> trace \<Rightarrow> trace" where
  "logger_error args t = t\<lparr>logs := logs t @ [LogError args]\<rparr>"

definition called :: "call \<Rightarrow> trace \<Rightarrow> trace" where
  "called c t = t\<lparr>calls := calls t @ [c]\<rparr>"

section \<open>The collaborators of the planner\<close>

text \<open>
  The HTTP response, as far as \<^verbatim>\<open>executeWithServerPlan\<close> reads it; \<open>body_json\<close> is
  the outcome of \<^verbatim>\<open>response.json()\<close>, which throws on a body that is not JSON.
\<close>

record response =
  ok :: bool
  status :: nat
  statusText :: string
  body_json :: "js_error + json"

text \<open>
  The functions that \<^verbatim>\<open>execute\<close> calls and that are defined in other modules
  (\<^verbatim>\<open>./errors\<close>, \<^verbatim>\<open>../messages/utils\<close>, \<^verbatim>\<open>./base\<close>) or by the platform
  (\<^verbatim>\<open>fetch\<close>) are parameters of the model: the four predicates on errors, the
  sanitizer, the constant message of a forbidden error, the outcome of a GET request to
  a URL, and the outcome of \<^verbatim>\<open>this.invoke\<close> on a message sequence (a plan,
  \<^verbatim>\<open>null\<close>, or a thrown error).
\<close>

record externals =
  isAuthenticationError :: "js_error \<Rightarrow> bool"
  isBadRequestError :: "js_error \<Rightarrow> bool"
  isAbortedError :: "js_error \<Rightarrow> bool"
  isForbiddenError :: "js_error \<Rightarrow> bool"
  LLM_FORBIDDEN_ERROR_MESSAGE :: string
  filterExternalContent :: "string \<Rightarrow> string"
  fetch :: "string \<Rightarrow> js_error + response"
  invoke :: "message list \<Rightarrow> js_error + planner_output option"

text \<open>The typed errors that \<^verbatim>\<open>execute\<close> throws to its caller (lines 148 to 154).\<close>

datatype planner_failure =
    ChatModelAuthError string js_error
  | ChatModelBadRequestError string js_error
  | RequestCancelledError string
  | ChatModelForbiddenError string js_error

text \<open>\<^verbatim>\<open>AgentOutput\<close>, its \<^verbatim>\<open>id\<close> written \<open>output_id\<close>: an absent property is \<open>None\<close>.\<close>

record agent_output =
  output_id :: string
  result :: "planner_output option"
  error :: "string option"

section \<open>executeWithServerPlan (planner.ts, lines 169 to 198)\<close>

text \<open>\<^verbatim>\<open>endpoint.replace(/\/$/, '')\<close>: one slash at the very end of the string is removed.\<close>

definition replace_trailing_slash :: "string \<Rightarrow> string" where
  "replace_trailing_slash endpoint =
     (if endpoint \<noteq> [] \<and> last endpoint = CHR ''/'' then butlast endpoint else endpoint)"

text \<open>The decimal digits of a number, for \<^verbatim>\<open>${response.status}\<close>.\<close>

fun show_nat :: "nat \<Rightarrow> string" where
  "show_nat n =
     (if n < 10 then [char_of (48 + n)] else show_nat (n div 10) @ [char_of (48 + n mod 10)])"

declare show_nat.simps [simp del]

text \<open>\<^verbatim>\<open>this.plannerConfig?.serverPlanEndpoint\<close>.\<close>

definition configured_endpoint :: "planner_agent \<Rightarrow> string option" where
  "configured_endpoint a =
     (case plannerConfig a of None \<Rightarrow> None | Some c \<Rightarrow> serverPlanEndpoint c)"

definition endpoint_missing :: js_error where
  "endpoint_missing = JsError ''Error'' ''Server plan endpoint not configured''"

definition server_returned :: "response \<Rightarrow> js_error" where
  "server_returned r =
     JsError ''Error'' (''Server returned '' @ show_nat (status r) @ '': '' @ statusText r)"

text \<open>
  One GET request and no loop. An endpoint that is \<^verbatim>\<open>undefined\<close> or the empty string
  is falsy and throws before any request; a thrown \<^verbatim>\<open>fetch\<close>, a status that is not
  ok, a body that is not JSON and a body that the schema refuses all throw after it.
\<close>

definition executeWithServerPlan ::
  "externals \<Rightarrow> planner_agent \<Rightarrow> trace \<Rightarrow> trace \<times> (thrown + planner_output)" where
  "executeWithServerPlan X a t =
     (case configured_endpoint a of
        None \<Rightarrow> (t, Inl (Js endpoint_missing))
      | Some endpoint \<Rightarrow>
          if endpoint = [] then (t, Inl (Js endpoint_missing))
          else
            (let apiUrl = replace_trailing_slash endpoint @ ''/planner/ReplyMessage/Facebook'';
                 t1 = logger_info [Text ''Fetching plan from server: '', Text apiUrl] t;
                 t2 = called (Fetch apiUrl) t1
             in case fetch X apiUrl of
                  Inl e \<Rightarrow> (t2, Inl (Js e))
                | Inr response \<Rightarrow>
                    if \<not> ok response then (t2, Inl (Js (server_returned response)))
                    else
                      (case body_json response of
                         Inl e \<Rightarrow> (t2, Inl (Js e))
                       | Inr serverPlan \<Rightarrow>
                           (case plannerOutputSchema_parse serverPlan of
                              Inl e \<Rightarrow> (t2, Inl e)
                            | Inr planOutput \<Rightarrow>
                                (logger_info [Text ''Server plan received'', Json planOutput] t2,
                                 Inr planOutput)))))"

section \<open>PlannerAgent.execute (planner.ts, lines 67 to 164)\<close>

text \<open>The loop of lines 82 to 87: \<^verbatim>\<open>newMsg += msg.text\<close> for the text segments.\<close>

fun append_text :: "string \<Rightarrow> segment \<Rightarrow> string" where
  "append_text newMsg (TextSegment txt) = newMsg @ txt"
| "append_text newMsg (ImageUrlSegment _) = newMsg"
| "append_text newMsg (OtherSegment _) = newMsg"

text \<open>
  Lines 72 to 93: the system message of the prompt, then the history without its first
  message; with \<open>useVision\<close> set and \<open>useVisionForPlanner\<close> unset the last entry is
  overwritten by a new \<^verbatim>\<open>HumanMessage\<close>. The sequence starts with the system message,
  so it is never empty and the index \<open>length - 1\<close> is in range.
\<close>

definition assemble_messages :: "planner_agent \<Rightarrow> message list" where
  "assemble_messages a =
     (let messages = getMessages (ctx a);
          plannerMessages = getSystemMessage a # drop 1 messages
      in if \<not> useVisionForPlanner (options (ctx a)) \<and> useVision (options (ctx a)) then
           (let lastStateMessage = plannerMessages ! (length plannerMessages - 1);
                newMsg = (case content_of lastStateMessage of
                            Parts segs \<Rightarrow> foldl append_text [] segs
                          | Str s \<Rightarrow> s)
            in plannerMessages[length plannerMessages - 1 := HumanMessage (Str newMsg)])
         else plannerMessages)"

text \<open>
  The condition of lines 97 to 101. \<^verbatim>\<open>useServerForFirstPlan\<close> must be \<^verbatim>\<open>true\<close> and
  the endpoint a string that is not empty (the empty string is falsy).
\<close>

definition use_server_plan :: "planner_agent \<Rightarrow> bool" where
  "use_server_plan a =
     (nSteps (ctx a) = 0 \<and>
      (case plannerConfig a of
         None \<Rightarrow> False
       | Some c \<Rightarrow>
           useServerForFirstPlan c = Some True \<and>
           (case serverPlanEndpoint c of None \<Rightarrow> False | Some e \<Rightarrow> e \<noteq> [])))"

definition call_invoke ::
  "externals \<Rightarrow> message list \<Rightarrow> trace \<Rightarrow> trace \<times> (js_error + planner_output option)" where
  "call_invoke X plannerMessages t = (called (Invoke plannerMessages) t, invoke X plannerMessages)"

text \<open>
  Lines 96 to 113: the model output, or the error that leaves the inner
  \<^verbatim>\<open>try\<close>. Whatever \<open>executeWithServerPlan\<close> throws is caught, logged and followed
  by one call of \<open>invoke\<close>.
\<close>

definition get_modelOutput ::
  "externals \<Rightarrow> planner_agent \<Rightarrow> message list \<Rightarrow> trace \<Rightarrow>
     trace \<times> (js_error + planner_output option)" where
  "get_modelOutput X a plannerMessages t =
     (if use_server_plan a then
        (let t1 = logger_info [Text ''Using server-based planning for first call''] t
         in case executeWithServerPlan X a t1 of
              (t2, Inr planOutput) \<Rightarrow> (t2, Inr (Some planOutput))
            | (t2, Inl err) \<Rightarrow>
                (let t3 = logger_error [Text ''Server planning failed: '', Rendered err] t2;
                     t4 = logger_info [Text ''Falling back to LLM-based planning''] t3
                 in call_invoke X plannerMessages t4))
      else call_invoke X plannerMessages t)"

text \<open>Lines 120 to 133: the five text fields are filtered, the rest is spread over.\<close>

definition clean_plan :: "externals \<Rightarrow> planner_output \<Rightarrow> planner_output" where
  "clean_plan X modelOutput =
     modelOutput\<lparr>observation := filterExternalContent X (observation modelOutput),
                 challenges := filterExternalContent X (challenges modelOutput),
                 reasoning := filterExternalContent X (reasoning modelOutput),
                 final_answer := filterExternalContent X (final_answer modelOutput),
                 next_steps := filterExternalContent X (next_steps modelOutput)\<rparr>"

text \<open>The body of the outer \<^verbatim>\<open>try\<close> (lines 69 to 143): what it returns, or what it throws.\<close>

definition try_block ::
  "externals \<Rightarrow> planner_agent \<Rightarrow> trace \<Rightarrow> trace \<times> (js_error + agent_output)" where
  "try_block X a t =
     (let t1 = emitEvent PLANNER STEP_START ''Planning...'' t;
          plannerMessages = assemble_messages a
      in case get_modelOutput X a plannerMessages t1 of
           (t2, Inl e) \<Rightarrow> (t2, Inl e)
         | (t2, Inr None) \<Rightarrow> (t2, Inl (JsError ''Error'' ''Failed to validate planner output''))
         | (t2, Inr (Some modelOutput)) \<Rightarrow>
             (let cleanedPlan = clean_plan X modelOutput;
                  eventMessage = (if done_flag cleanedPlan then final_answer cleanedPlan
                                  else next_steps cleanedPlan);
                  t3 = emitEvent PLANNER STEP_OK eventMessage t2;
                  t4 = logger_info [Text ''Planner output'', Json cleanedPlan] t3
              in (t4, Inr \<lparr>output_id = agent_id a, result = Some cleanedPlan, error = None\<rparr>)))"

text \<open>
  The \<^verbatim>\<open>catch\<close> of lines 144 to 163: four tests in the order of the source, each
  throwing its typed error; an error that passes none of them is logged, reported by a
  step-fail event and returned in the outcome.
\<close>

definition catch_block ::
  "externals \<Rightarrow> planner_agent \<Rightarrow> js_error \<Rightarrow> trace \<Rightarrow> trace \<times> (planner_failure + agent_output)" where
  "catch_block X a e t =
     (let errorMessage = errorMessage_of e
      in if isAuthenticationError X e then (t, Inl (ChatModelAuthError errorMessage e))
         else if isBadRequestError X e then (t, Inl (ChatModelBadRequestError errorMessage e))
         else if isAbortedError X e then (t, Inl (RequestCancelledError errorMessage))
         else if isForbiddenError X e then
           (t, Inl (ChatModelForbiddenError (LLM_FORBIDDEN_ERROR_MESSAGE X) e))
         else
           (let t1 = logger_error [Text ''Planning failed: '', Text errorMessage] t;
                t2 = emitEvent PLANNER STEP_FAIL (''Planning failed: '' @ errorMessage) t1
            in (t2, Inr \<lparr>output_id = agent_id a, result = None, error = Some errorMessage\<rparr>)))"

definition execute ::
  "externals \<Rightarrow> planner_agent \<Rightarrow> trace \<times> (planner_failure + agent_output)" where
  "execute X a =
     (case try_block X a no_trace of
        (t, Inr output) \<Rightarrow> (t, Inr output)
      | (t, Inl e) \<Rightarrow> catch_block X a e t)"

section \<open>InitializationService.ensureDefaultConfiguration (initialization.ts, lines 14 to 75)\<close>

datatype ProviderTypeEnum = CustomOpenAI

datatype AgentNameEnum = Planner | Navigator

record provider_config =
  name :: string
  provider_type :: ProviderTypeEnum
  apiKey :: string
  baseUrl :: string
  modelNames :: "string list"
  createdAt :: int

text \<open>The model parameters are kept as the text of their literals (\<^verbatim>\<open>0.1\<close>).\<close>

record model_config =
  provider :: string
  modelName :: string
  parameters :: "(string \<times> string) list"
  reasoningEffort :: string

text \<open>
  The two stores live in the storage package; their operations are parameters. A read
  resolves to the record of the providers (the list of its entries) or throws; a write
  resolves (\<open>None\<close>) or throws (\<open>Some\<close>). The environment variable and the clock are
  read once each.
\<close>

record init_env =
  getAllProviders :: "js_error + (string \<times> provider_config) list"
  setProvider :: "string \<Rightarrow> provider_config \<Rightarrow> js_error option"
  setAgentModel :: "AgentNameEnum \<Rightarrow> model_config \<Rightarrow> js_error option"
  VITE_REPLYZY_BACKEND :: "string option"
  Date_now :: int

datatype store_call =
    GetAllProviders
  | SetProvider string provider_config
  | SetAgentModel AgentNameEnum model_config

fun is_write :: "store_call \<Rightarrow> bool" where
  "is_write GetAllProviders = False"
| "is_write (SetProvider _ _) = True"
| "is_write (SetAgentModel _ _) = True"

record init_trace =
  init_logs :: "log_entry list"
  store_calls :: "store_call list"

definition init_info :: "log_arg list \<Rightarrow> init_trace \<Rightarrow> init_trace" where
  "init_info args t = t\<lparr>init_logs := init_logs t @ [LogInfo args]\<rparr>"

definition init_error :: "log_arg list \<Rightarrow> init_trace \<Rightarrow> init_trace" where
  "init_error args t = t\<lparr>init_logs := init_logs t @ [LogError args]\<rparr>"

definition store_called :: "store_call \<Rightarrow> init_trace \<Rightarrow> init_trace" where
  "store_called c t = t\<lparr>store_calls := store_calls t @ [c]\<rparr>"

text \<open>Lines 45 to 48: the same parameters for every agent.\<close>

definition getModelParameters :: "AgentNameEnum \<Rightarrow> (string \<times> string) list" where
  "getModelParameters agent = [(''temperature'', ''0.1''), (''topP'', ''0.1'')]"

definition default_model :: "AgentNameEnum \<Rightarrow> model_config" where
  "default_model agent =
     \<lparr>provider = ''replyzy'', modelName = ''gpt-5-mini'',
      parameters = getModelParameters agent, reasoningEffort = ''medium''\<rparr>"

text \<open>
  The body of the \<^verbatim>\<open>try\<close> (lines 16 to 70): it returns, or it throws what a store
  operation threw.
\<close>

definition setup_defaults :: "init_env \<Rightarrow> init_trace \<times> (js_error + unit)" where
  "setup_defaults E =
     (let t0 = store_called GetAllProviders \<lparr>init_logs = [], store_calls = []\<rparr>
      in case getAllProviders E of
           Inl e \<Rightarrow> (t0, Inl e)
         | Inr providers \<Rightarrow>
             (let hasProviders = (length (map fst providers) > 0)
              in if hasProviders then
                   (init_info [Text ''Providers already configured, skipping default setup''] t0,
                    Inr ())
                 else
                   (let replyzyProviderId = ''replyzy'';
                        replyzyBackendUrl =
                          (case VITE_REPLYZY_BACKEND E of
                             None \<Rightarrow> ''http://localhost:7200/''
                           | Some u \<Rightarrow> if u = [] then ''http://localhost:7200/'' else u);
                        t1 = init_info
                               [Text ''Setting up default Replyzy provider with backend URL:'',
                                Text replyzyBackendUrl] t0;
                        replyzyProvider =
                          \<lparr>name = ''Replyzy'', provider_type = CustomOpenAI, apiKey = [],
                           baseUrl = replyzyBackendUrl,
                           modelNames = [''gpt-5'', ''gpt-5-mini''],
                           createdAt = Date_now E\<rparr>;
                        t2 = store_called (SetProvider replyzyProviderId replyzyProvider) t1
                    in case setProvider E replyzyProviderId replyzyProvider of
                         Some e \<Rightarrow> (t2, Inl e)
                       | None \<Rightarrow>
                           (let t3 = init_info [Text ''Created default Replyzy provider''] t2;
                                t4 = store_called (SetAgentModel Planner (default_model Planner)) t3
                            in case setAgentModel E Planner (default_model Planner) of
                                 Some e \<Rightarrow> (t4, Inl e)
                               | None \<Rightarrow>
                                   (let t5 = init_info
                                               [Text ''Configured default Planner model with gpt-5-mini''] t4;
                                        t6 = store_called
                                               (SetAgentModel Navigator (default_model Navigator)) t5
                                    in case setAgentModel E Navigator (default_model Navigator) of
                                         Some e \<Rightarrow> (t6, Inl e)
                                       | None \<Rightarrow>
                                           (init_info
                                              [Text ''Default configuration setup completed successfully'']
                                              (init_info
                                                 [Text ''Configured default Navigator model with gpt-5-mini'']
                                                 t6),
                                            Inr ()))))))"

text \<open>
  The whole method: \<open>Inr ()\<close> is a promise that resolves, \<open>Inl e\<close> one that rejects
  with \<open>e\<close>. The \<^verbatim>\<open>catch\<close> logs and does not throw again.
\<close>

definition ensureDefaultConfiguration :: "init_env \<Rightarrow> init_trace \<times> (js_error + unit)" where
  "ensureDefaultConfiguration E =
     (case setup_defaults E of
        (t, Inr u) \<Rightarrow> (t, Inr u)
      | (t, Inl e) \<Rightarrow>
          (init_error [Text ''Failed to create default configuration:'', Rendered (Js e)] t,
           Inr ()))"

section \<open>The vocabulary of the specification\<close>

text \<open>
  The classifications of section 4.3 and the rule "checked in a fixed priority order, the
  first match wins", written as the specification words it: a list of tests with their
  classifications, searched from the front, with a default when no test matches.
\<close>

datatype failure_kind = Authentication | BadRequest | Cancelled | Forbidden | Unclassified

fun first_match :: "(('e \<Rightarrow> bool) \<times> failure_kind) list \<Rightarrow> failure_kind \<Rightarrow> 'e \<Rightarrow> failure_kind" where
  "first_match [] dflt e = dflt"
| "first_match ((p, k) # rest) dflt e = (if p e then k else first_match rest dflt e)"

definition priority_order :: "externals \<Rightarrow> ((js_error \<Rightarrow> bool) \<times> failure_kind) list" where
  "priority_order X =
     [(isAuthenticationError X, Authentication),
      (isBadRequestError X, BadRequest),
      (isAbortedError X, Cancelled),
      (isForbiddenError X, Forbidden)]"

text \<open>
  The kind of failure that an outcome of \<open>execute\<close> propagates: the class of the typed
  error thrown, or unclassified for an outcome that carries \<open>error\<close>; a successful
  outcome has none.
\<close>

fun propagated_kind :: "planner_failure + agent_output \<Rightarrow> failure_kind option" where
  "propagated_kind (Inl (ChatModelAuthError _ _)) = Some Authentication"
| "propagated_kind (Inl (ChatModelBadRequestError _ _)) = Some BadRequest"
| "propagated_kind (Inl (RequestCancelledError _)) = Some Cancelled"
| "propagated_kind (Inl (ChatModelForbiddenError _ _)) = Some Forbidden"
| "propagated_kind (Inr output) = (case error output of Some _ \<Rightarrow> Some Unclassified | None \<Rightarrow> None)"

text \<open>An error that one of the four tests of the \<^verbatim>\<open>catch\<close> accepts.\<close>

definition typed_error :: "externals \<Rightarrow> js_error \<Rightarrow> bool" where
  "typed_error X e \<longleftrightarrow>
     isAuthenticationError X e \<or> isBadRequestError X e \<or> isAbortedError X e \<or> isForbiddenError X e"

text \<open>Counting the events of a step: its step-start events and its terminal events.\<close>

definition count_events :: "execution_state \<Rightarrow> trace \<Rightarrow> nat" where
  "count_events s t = length (filter (\<lambda>ev. ev_state ev = s) (events t))"


text \<open>"Only its text segments are kept, concatenated in their original order."\<close>

fun text_segments :: "segment list \<Rightarrow> string list" where
  "text_segments [] = []"
| "text_segments (TextSegment txt # segs) = txt # text_segments segs"
| "text_segments (ImageUrlSegment _ # segs) = text_segments segs"
| "text_segments (OtherSegment _ # segs) = text_segments segs"

section \<open>Concrete inputs\<close>

text \<open>
  Inputs on which the theorems below are run. The collaborators are given by their
  outcomes: the errors each predicate accepts, what the GET request yields and what
  \<open>invoke\<close> yields. The filter of this example drops the character \<open><\<close>; it stands
  for no particular implementation.
\<close>

definition example_externals ::
  "js_error list \<Rightarrow> js_error list \<Rightarrow> js_error list \<Rightarrow> js_error list \<Rightarrow>
   (js_error + response) \<Rightarrow> (js_error + planner_output option) \<Rightarrow> externals" where
  "example_externals auth bad aborted forbidden fetched invoked =
     \<lparr>isAuthenticationError = (\<lambda>e. e \<in> set auth),
      isBadRequestError = (\<lambda>e. e \<in> set bad),
      isAbortedError = (\<lambda>e. e \<in> set aborted),
      isForbiddenError = (\<lambda>e. e \<in> set forbidden),
      LLM_FORBIDDEN_ERROR_MESSAGE = ''Access denied'',
      filterExternalContent = filter (\<lambda>c. c \<noteq> CHR ''<''),
      fetch = (\<lambda>url. fetched),
      invoke = (\<lambda>plannerMessages. invoked)\<rparr>"

definition example_agent ::
  "nat \<Rightarrow> planner_config option \<Rightarrow> bool \<Rightarrow> bool \<Rightarrow> message list \<Rightarrow> planner_agent" where
  "example_agent n cfg vision visionForPlanner history =
     \<lparr>agent_id = ''planner'',
      ctx = \<lparr>nSteps = n,
             options = \<lparr>useVision = vision, useVisionForPlanner = visionForPlanner\<rparr>,
             getMessages = history\<rparr>,
      plannerConfig = cfg,
      getSystemMessage = SystemMessage (Str ''You are a planner'')\<rparr>"

definition server_first :: "planner_config option" where
  "server_first = Some \<lparr>useServerForFirstPlan = Some True, serverPlanEndpoint = Some ''https://x/''\<rparr>"

definition example_history :: "message list" where
  "example_history =
     [SystemMessage (Str ''old prompt''),
      HumanMessage (Str ''task''),
      HumanMessage (Parts [TextSegment ''state '', ImageUrlSegment ''data:image/png'',
                           TextSegment ''of the page''])]"

definition example_plan :: "bool \<Rightarrow> planner_output" where
  "example_plan d =
     \<lparr>observation = ''o'', challenges = ''c'', done_flag = d, next_steps = ''<n'',
      final_answer = ''<FINAL'', reasoning = ''r'', web_task = False\<rparr>"

definition http_500 :: response where
  "http_500 = \<lparr>ok = False, status = 500, statusText = ''Internal Server Error'',
               body_json = Inl (JsError ''SyntaxError'' ''Unexpected end of JSON input'')\<rparr>"

definition abort_error :: js_error where
  "abort_error = JsError ''AbortError'' ''The operation was aborted''"

definition auth_error :: js_error where
  "auth_error = JsError ''AuthenticationError'' ''401 Incorrect API key''"

definition aborted_401 :: js_error where
  "aborted_401 = JsError ''AbortError'' ''Aborted: 401 authentication failed''"

text \<open>A first step with server-first planning, and a later step without a configuration.\<close>

definition first_step :: planner_agent where
  "first_step = example_agent 0 server_first False False example_history"

definition later_step :: planner_agent where
  "later_step = example_agent 1 None False False example_history"

definition ai_message_last :: planner_agent where
  "ai_message_last =
     example_agent 1 None True False
       [SystemMessage (Str ''old prompt''), HumanMessage (Str ''task''), AIMessage (Str ''done'')]"

text \<open>
  The remote endpoint answers 500 and the LLM returns a plan, or throws an authentication
  error; the LLM call is aborted; the request is aborted and the LLM returns a plan; the LLM
  throws an error that the abort test and the authentication test both accept.
\<close>

definition server_down_llm_plans :: externals where
  "server_down_llm_plans =
     example_externals [auth_error] [] [] [] (Inr http_500) (Inr (Some (example_plan False)))"

definition server_down_llm_unauthorized :: externals where
  "server_down_llm_unauthorized =
     example_externals [auth_error] [] [] [] (Inr http_500) (Inl auth_error)"

definition llm_call_aborted :: externals where
  "llm_call_aborted = example_externals [] [] [abort_error] [] (Inr http_500) (Inl abort_error)"

definition fetch_aborted_llm_plans :: externals where
  "fetch_aborted_llm_plans =
     example_externals [] [] [abort_error] [] (Inl abort_error) (Inr (Some (example_plan False)))"

definition overlapping_tests :: externals where
  "overlapping_tests =
     example_externals [aborted_401] [] [aborted_401] [] (Inr http_500) (Inl aborted_401)"

text \<open>
  The output that a step obtains from its planning source (lines 96 to 113): a plan from
  the remote service or from the LLM, \<^verbatim>\<open>null\<close>, or the error thrown.
\<close>

definition validated_output :: "externals \<Rightarrow> planner_agent \<Rightarrow> js_error + planner_output option" where
  "validated_output X a = snd (get_modelOutput X a (assemble_messages a) no_trace)"

text \<open>The error thrown at line 116 when neither source produced an output.\<close>

definition validation_failed :: js_error where
  "validation_failed = JsError ''Error'' ''Failed to validate planner output''"

text \<open>
  The error that leaves the outer \<^verbatim>\<open>try\<close> for a given outcome of the planning source:
  the error thrown by the source, or the validation error for \<^verbatim>\<open>null\<close>; none when a
  plan was obtained.
\<close>

definition escaping_error :: "js_error + planner_output option \<Rightarrow> js_error option" where
  "escaping_error r =
     (case r of
        Inl e \<Rightarrow> Some e
      | Inr None \<Rightarrow> Some validation_failed
      | Inr (Some m) \<Rightarrow> None)"

text \<open>The URL of the remote planning endpoint (line 176).\<close>

definition api_url :: "planner_agent \<Rightarrow> string" where
  "api_url a =
     (case configured_endpoint a of
        None \<Rightarrow> []
      | Some endpoint \<Rightarrow> replace_trailing_slash endpoint @ ''/planner/ReplyMessage/Facebook'')"

text \<open>
  The error-level log entry of the inner \<^verbatim>\<open>catch\<close> (line 107), present when the
  remote path was tried and threw.
\<close>

definition server_failure_log :: "externals \<Rightarrow> planner_agent \<Rightarrow> log_entry list" where
  "server_failure_log X a =
     (if use_server_plan a then
        (case snd (executeWithServerPlan X a no_trace) of
           Inl err \<Rightarrow> [LogError [Text ''Server planning failed: '', Rendered err] ]
         | Inr planOutput \<Rightarrow> [])
      else [])"

text \<open>
  The remote path was taken and the value it threw is an error that the abort test
  accepts.
\<close>

definition remote_aborted :: "externals \<Rightarrow> planner_agent \<Rightarrow> bool" where
  "remote_aborted X a =
     (use_server_plan a \<and>
      (case snd (executeWithServerPlan X a no_trace) of
         Inl (Js e) \<Rightarrow> isAbortedError X e
       | Inl (ZodError issues) \<Rightarrow> False
       | Inr planOutput \<Rightarrow> False))"

text \<open>The message sequence of lines 72 to 74, before the step that removes images.\<close>

definition history_messages :: "planner_agent \<Rightarrow> message list" where
  "history_messages a = getSystemMessage a # drop 1 (getMessages (ctx a))"

text \<open>
  The coercion rule of the specification for a boolean field: a literal boolean is itself,
  a string that spells \<open>true\<close> or \<open>false\<close> in any mix of cases is that boolean, and
  nothing else is accepted.
\<close>

fun coerced :: "json \<Rightarrow> bool option" where
  "coerced (JBool b) = Some b"
| "coerced (JString s) =
     (if s \<in> set (spellings ''true'') then Some True
      else if s \<in> set (spellings ''false'') then Some False
      else None)"
| "coerced _ = None"

fun boolean_or_string :: "json \<Rightarrow> bool" where
  "boolean_or_string (JBool b) = True"
| "boolean_or_string (JString s) = True"
| "boolean_or_string _ = False"

definition invalid_boolean_string :: js_error where
  "invalid_boolean_string = JsError ''Error'' ''Invalid boolean string''"

text \<open>Stores for the initialization service, given by the outcomes of their operations.\<close>

definition example_provider :: provider_config where
  "example_provider =
     \<lparr>name = ''OpenAI'', provider_type = CustomOpenAI, apiKey = ''sk'',
      baseUrl = ''https://api.example/'', modelNames = [''gpt-5''], createdAt = 1\<rparr>"

definition example_stores ::
  "(js_error + (string \<times> provider_config) list) \<Rightarrow> js_error option \<Rightarrow> js_error option \<Rightarrow> init_env" where
  "example_stores read provider_write model_write =
     \<lparr>getAllProviders = read,
      setProvider = (\<lambda>key value. provider_write),
      setAgentModel = (\<lambda>agent config. model_write),
      VITE_REPLYZY_BACKEND = None,
      Date_now = 1700000000000\<rparr>"

definition quota_error :: js_error where
  "quota_error = JsError ''Error'' ''QUOTA_BYTES quota exceeded''"

lemmas example_defs =
  example_externals_def example_agent_def example_history_def example_plan_def
  http_500_def abort_error_def auth_error_def server_first_def
  example_provider_def example_stores_def quota_error_def aborted_401_def
  first_step_def later_step_def ai_message_last_def server_down_llm_plans_def
  server_down_llm_unauthorized_def llm_call_aborted_def fetch_aborted_llm_plans_def
  overlapping_tests_def

lemmas step_defs =
  execute_def try_block_def catch_block_def get_modelOutput_def call_invoke_def
  executeWithServerPlan_def use_server_plan_def assemble_messages_def clean_plan_def
  emitEvent_def logger_info_def logger_error_def called_def no_trace_def
  configured_endpoint_def replace_trailing_slash_def server_returned_def
  endpoint_missing_def validated_output_def Let_def

lemmas trace_defs = emitEvent_def logger_info_def logger_error_def called_def

lemma char_eq_char_of: "(c = char_of n) = (take_bit 8 n = of_char c)"
  using char_of_eq_iff[of n c] by (simp only: eq_commute[of c "char_of n"])

lemmas char_eval = char_of_eq_iff char_eq_char_of

section \<open>How a step runs\<close>

lemma server_outcome_any_trace:
  "snd (executeWithServerPlan X a t) = snd (executeWithServerPlan X a t')"
  by (simp add: executeWithServerPlan_def Let_def split: option.splits sum.splits)

lemma server_events: "events (fst (executeWithServerPlan X a t)) = events t"
  by (simp add: executeWithServerPlan_def Let_def trace_defs split: option.splits sum.splits)

lemma snd_get_modelOutput:
  "snd (get_modelOutput X a ms t) =
     (if use_server_plan a then
        (case snd (executeWithServerPlan X a no_trace) of
           Inr planOutput \<Rightarrow> Inr (Some planOutput)
         | Inl err \<Rightarrow> invoke X ms)
      else invoke X ms)"
proof (cases "use_server_plan a")
  case False
  then show ?thesis by (simp add: get_modelOutput_def call_invoke_def)
next
  case True
  let ?t1 = "logger_info [Text ''Using server-based planning for first call''] t"
  obtain t2 r where s: "executeWithServerPlan X a ?t1 = (t2, r)"
    by (cases "executeWithServerPlan X a ?t1")
  have "snd (executeWithServerPlan X a no_trace) = r"
    using server_outcome_any_trace[of X a no_trace ?t1] s by simp
  then show ?thesis using True s
    by (cases r) (simp_all add: get_modelOutput_def call_invoke_def Let_def)
qed

lemma modelOutput_any_trace:
  "snd (get_modelOutput X a ms t) = snd (get_modelOutput X a ms t')"
  by (simp add: snd_get_modelOutput)

lemma modelOutput_events: "events (fst (get_modelOutput X a ms t)) = events t"
proof (cases "use_server_plan a")
  case False
  then show ?thesis by (simp add: get_modelOutput_def call_invoke_def trace_defs)
next
  case True
  obtain t2 r where s: "executeWithServerPlan X a (logger_info [Text ''Using server-based planning for first call''] t) = (t2, r)"
    by (cases "executeWithServerPlan X a (logger_info [Text ''Using server-based planning for first call''] t)")
  have "events t2 = events t"
    using server_events[of X a "logger_info [Text ''Using server-based planning for first call''] t"] s
    by (simp add: trace_defs)
  then show ?thesis using True s
    by (cases r) (simp_all add: get_modelOutput_def call_invoke_def Let_def trace_defs)
qed

lemma try_block_success:
  assumes "validated_output X a = Inr (Some m)"
  shows "snd (try_block X a no_trace) =
           Inr \<lparr>output_id = agent_id a, result = Some (clean_plan X m), error = None\<rparr>"
    and "events (fst (try_block X a no_trace)) =
           [Event PLANNER STEP_START ''Planning...'',
            Event PLANNER STEP_OK (if done_flag m then filterExternalContent X (final_answer m)
                                   else filterExternalContent X (next_steps m))]"
proof -
  let ?t1 = "emitEvent PLANNER STEP_START ''Planning...'' no_trace"
  obtain t2 r where g: "get_modelOutput X a (assemble_messages a) ?t1 = (t2, r)"
    by (cases "get_modelOutput X a (assemble_messages a) ?t1")
  have r: "r = Inr (Some m)"
    using assms g modelOutput_any_trace[of X a "assemble_messages a" ?t1 no_trace]
    by (simp add: validated_output_def)
  have e: "events t2 = [Event PLANNER STEP_START ''Planning...'']"
    using modelOutput_events[of X a "assemble_messages a" ?t1] g
    by (simp add: emitEvent_def no_trace_def)
  show "snd (try_block X a no_trace) =
           Inr \<lparr>output_id = agent_id a, result = Some (clean_plan X m), error = None\<rparr>"
    using g r by (simp add: try_block_def Let_def)
  show "events (fst (try_block X a no_trace)) =
           [Event PLANNER STEP_START ''Planning...'',
            Event PLANNER STEP_OK (if done_flag m then filterExternalContent X (final_answer m)
                                   else filterExternalContent X (next_steps m))]"
    using g r e by (simp add: try_block_def Let_def trace_defs clean_plan_def)
qed

lemma try_block_failure:
  assumes "validated_output X a = Inl e"
  shows "snd (try_block X a no_trace) = Inl e"
    and "events (fst (try_block X a no_trace)) = [Event PLANNER STEP_START ''Planning...'']"
    and "fst (try_block X a no_trace) = fst (get_modelOutput X a (assemble_messages a) (emitEvent PLANNER STEP_START ''Planning...'' no_trace))"
proof -
  let ?t1 = "emitEvent PLANNER STEP_START ''Planning...'' no_trace"
  obtain t2 r where g: "get_modelOutput X a (assemble_messages a) ?t1 = (t2, r)"
    by (cases "get_modelOutput X a (assemble_messages a) ?t1")
  have r: "r = Inl e"
    using assms g modelOutput_any_trace[of X a "assemble_messages a" ?t1 no_trace]
    by (simp add: validated_output_def)
  have e: "events t2 = [Event PLANNER STEP_START ''Planning...'']"
    using modelOutput_events[of X a "assemble_messages a" ?t1] g
    by (simp add: emitEvent_def no_trace_def)
  show "snd (try_block X a no_trace) = Inl e"
    using g r by (simp add: try_block_def Let_def)
  show "events (fst (try_block X a no_trace)) = [Event PLANNER STEP_START ''Planning...'']"
    using g r e by (simp add: try_block_def Let_def)
  show "fst (try_block X a no_trace) = fst (get_modelOutput X a (assemble_messages a) ?t1)"
    using g r by (simp add: try_block_def Let_def)
qed

lemma try_block_null:
  assumes "validated_output X a = Inr None"
  shows "snd (try_block X a no_trace) = Inl (JsError ''Error'' ''Failed to validate planner output'')"
    and "events (fst (try_block X a no_trace)) = [Event PLANNER STEP_START ''Planning...'']"
    and "fst (try_block X a no_trace) = fst (get_modelOutput X a (assemble_messages a) (emitEvent PLANNER STEP_START ''Planning...'' no_trace))"
proof -
  let ?t1 = "emitEvent PLANNER STEP_START ''Planning...'' no_trace"
  obtain t2 r where g: "get_modelOutput X a (assemble_messages a) ?t1 = (t2, r)"
    by (cases "get_modelOutput X a (assemble_messages a) ?t1")
  have r: "r = Inr None"
    using assms g modelOutput_any_trace[of X a "assemble_messages a" ?t1 no_trace]
    by (simp add: validated_output_def)
  have e: "events t2 = [Event PLANNER STEP_START ''Planning...'']"
    using modelOutput_events[of X a "assemble_messages a" ?t1] g
    by (simp add: emitEvent_def no_trace_def)
  show "snd (try_block X a no_trace) = Inl (JsError ''Error'' ''Failed to validate planner output'')"
    using g r by (simp add: try_block_def Let_def)
  show "events (fst (try_block X a no_trace)) = [Event PLANNER STEP_START ''Planning...'']"
    using g r e by (simp add: try_block_def Let_def)
  show "fst (try_block X a no_trace) = fst (get_modelOutput X a (assemble_messages a) ?t1)"
    using g r by (simp add: try_block_def Let_def)
qed

lemma execute_success:
  assumes "validated_output X a = Inr (Some m)"
  shows "execute X a = (fst (try_block X a no_trace), Inr \<lparr>output_id = agent_id a, result = Some (clean_plan X m), error = None\<rparr>)"
  using try_block_success(1)[OF assms]
  by (cases "try_block X a no_trace") (simp add: execute_def)

lemma execute_failure:
  assumes "snd (try_block X a no_trace) = Inl e"
  shows "execute X a = catch_block X a e (fst (try_block X a no_trace))"
  using assms by (cases "try_block X a no_trace") (simp add: execute_def)

text \<open>
  When the remote path is taken, \<open>executeWithServerPlan\<close> throws exactly when the request
  throws, the status is not ok, the body is not JSON, or the schema refuses the body.
\<close>

lemma server_plan_fails:
  assumes "use_server_plan a"
  shows "isl (snd (executeWithServerPlan X a t)) \<longleftrightarrow>
           (case fetch X (api_url a) of
              Inl e \<Rightarrow> True
            | Inr response \<Rightarrow>
                \<not> ok response \<or>
                (case body_json response of
                   Inl e \<Rightarrow> True
                 | Inr serverPlan \<Rightarrow> isl (plannerOutputSchema_parse serverPlan)))"
  using assms
  by (auto simp: executeWithServerPlan_def use_server_plan_def configured_endpoint_def api_url_def
        Let_def split: option.splits sum.splits)


lemma server_error_logs:
  "filter is_error_entry (logs (fst (executeWithServerPlan X a t))) = filter is_error_entry (logs t)"
  by (simp add: executeWithServerPlan_def Let_def trace_defs split: option.splits sum.splits)


lemma modelOutput_error_logs:
  "filter is_error_entry (logs (fst (get_modelOutput X a ms t))) =
     filter is_error_entry (logs t) @ server_failure_log X a"
proof (cases "use_server_plan a")
  case False
  then show ?thesis
    by (simp add: get_modelOutput_def call_invoke_def server_failure_log_def trace_defs)
next
  case True
  let ?t1 = "logger_info [Text ''Using server-based planning for first call''] t"
  obtain t2 r where s: "executeWithServerPlan X a ?t1 = (t2, r)"
    by (cases "executeWithServerPlan X a ?t1")
  have r: "snd (executeWithServerPlan X a no_trace) = r"
    using server_outcome_any_trace[of X a no_trace ?t1] s by simp
  have "filter is_error_entry (logs t2) = filter is_error_entry (logs t)"
    using server_error_logs[of X a ?t1] s by (simp add: trace_defs)
  then show ?thesis
    using True s r
    by (cases r) (simp_all add: get_modelOutput_def call_invoke_def Let_def trace_defs server_failure_log_def)
qed

lemma catch_block_events:
  "events (fst (catch_block X a e t)) =
     (if typed_error X e then events t
      else events t @ [Event PLANNER STEP_FAIL (''Planning failed: '' @ errorMessage_of e)])"
  by (simp add: catch_block_def typed_error_def Let_def trace_defs)



lemma no_trace_events: "events no_trace = []"
  and no_trace_calls: "calls no_trace = []"
  and no_trace_logs: "logs no_trace = []"
  by (simp_all add: no_trace_def)

lemma try_block_unfold:
  "try_block X a no_trace =
     (let g = get_modelOutput X a (assemble_messages a)
                (emitEvent PLANNER STEP_START ''Planning...'' no_trace)
      in case escaping_error (validated_output X a) of
           Some e \<Rightarrow> (fst g, Inl e)
         | None \<Rightarrow>
             (logger_info [Text ''Planner output'', Json (clean_plan X (the (projr (validated_output X a))))]
                (emitEvent PLANNER STEP_OK
                   (if done_flag (the (projr (validated_output X a)))
                    then filterExternalContent X (final_answer (the (projr (validated_output X a))))
                    else filterExternalContent X (next_steps (the (projr (validated_output X a)))))
                   (fst g)),
              Inr \<lparr>output_id = agent_id a,
                   result = Some (clean_plan X (the (projr (validated_output X a)))), error = None\<rparr>))"
proof -
  let ?t1 = "emitEvent PLANNER STEP_START ''Planning...'' no_trace"
  obtain t2 r where g: "get_modelOutput X a (assemble_messages a) ?t1 = (t2, r)"
    by (cases "get_modelOutput X a (assemble_messages a) ?t1")
  have r: "validated_output X a = r"
    using g modelOutput_any_trace[of X a "assemble_messages a" ?t1 no_trace]
    by (simp add: validated_output_def)
  show ?thesis
    unfolding r using g
    by (simp add: try_block_def Let_def escaping_error_def validation_failed_def clean_plan_def
          split: sum.splits option.splits)
qed


lemma try_block_error_logs:
  "filter is_error_entry (logs (fst (try_block X a no_trace))) =
     filter is_error_entry (logs (fst (get_modelOutput X a (assemble_messages a)
                   (emitEvent PLANNER STEP_START ''Planning...'' no_trace))))"
  by (simp add: try_block_unfold Let_def trace_defs split: option.splits)

lemma try_block_events_start:
  "events (fst (try_block X a no_trace)) =
     Event PLANNER STEP_START ''Planning...'' #
     (case escaping_error (validated_output X a) of
        Some e \<Rightarrow> []
      | None \<Rightarrow> [Event PLANNER STEP_OK
                   (if done_flag (the (projr (validated_output X a)))
                    then filterExternalContent X (final_answer (the (projr (validated_output X a))))
                    else filterExternalContent X (next_steps (the (projr (validated_output X a)))))])"
  by (simp add: try_block_unfold Let_def modelOutput_events trace_defs no_trace_events split: option.splits)


lemma execute_escaping:
  assumes "escaping_error (validated_output X a) = Some e"
  shows "execute X a = catch_block X a e (fst (try_block X a no_trace))"
  using assms by (simp add: execute_def try_block_unfold Let_def)

lemma execute_events:
  "events (fst (execute X a)) =
     Event PLANNER STEP_START ''Planning...'' #
     (case validated_output X a of
        Inr (Some m) \<Rightarrow>
          [Event PLANNER STEP_OK (if done_flag m then filterExternalContent X (final_answer m)
                                  else filterExternalContent X (next_steps m))]
      | Inr None \<Rightarrow>
          (if typed_error X validation_failed then []
           else [Event PLANNER STEP_FAIL (''Planning failed: '' @ errorMessage_of validation_failed)])
      | Inl e \<Rightarrow>
          (if typed_error X e then []
           else [Event PLANNER STEP_FAIL (''Planning failed: '' @ errorMessage_of e)]))"
proof (cases "escaping_error (validated_output X a)")
  case None
  then obtain m where m: "validated_output X a = Inr (Some m)"
    by (auto simp: escaping_error_def split: sum.splits option.splits)
  show ?thesis
    using execute_success[OF m] try_block_success(2)[OF m] m by simp
next
  case (Some e)
  show ?thesis
    using Some execute_escaping[OF Some] try_block_events_start[of X a]
    by (auto simp: catch_block_events escaping_error_def split: sum.splits option.splits)
qed

lemma catch_block_outcome_any_trace:
  "snd (catch_block X a e t) = snd (catch_block X a e t')"
  by (simp add: catch_block_def Let_def)

lemma catch_block_same_id:
  "agent_id a' = agent_id a \<Longrightarrow> snd (catch_block X a' e t) = snd (catch_block X a e t)"
  by (simp add: catch_block_def Let_def)

lemma execute_outcome:
  "snd (execute X a) =
     (case validated_output X a of
        Inr (Some m) \<Rightarrow>
          Inr \<lparr>output_id = agent_id a, result = Some (clean_plan X m), error = None\<rparr>
      | Inr None \<Rightarrow> snd (catch_block X a validation_failed no_trace)
      | Inl e \<Rightarrow> snd (catch_block X a e no_trace))"
proof (cases "escaping_error (validated_output X a)")
  case None
  then obtain m where m: "validated_output X a = Inr (Some m)"
    by (auto simp: escaping_error_def split: sum.splits option.splits)
  show ?thesis
    using execute_success[OF m] m by simp
next
  case (Some e)
  show ?thesis
    using Some execute_escaping[OF Some]
      catch_block_outcome_any_trace[of X a e "fst (try_block X a no_trace)" no_trace]
    by (auto simp: escaping_error_def split: sum.splits option.splits)
qed






lemma catch_block_error_logs:
  "filter is_error_entry (logs (fst (catch_block X a e t))) =
     filter is_error_entry (logs t) @
     (if typed_error X e then []
      else [LogError [Text ''Planning failed: '', Text (errorMessage_of e)] ])"
  by (simp add: catch_block_def typed_error_def Let_def trace_defs)

lemma execute_error_logs:
  "filter is_error_entry (logs (fst (execute X a))) =
     server_failure_log X a @
     (case escaping_error (validated_output X a) of
        None \<Rightarrow> []
      | Some e \<Rightarrow> if typed_error X e then []
                  else [LogError [Text ''Planning failed: '', Text (errorMessage_of e)] ])"
proof (cases "escaping_error (validated_output X a)")
  case None
  then obtain m where m: "validated_output X a = Inr (Some m)"
    by (auto simp: escaping_error_def split: sum.splits option.splits)
  show ?thesis
    using execute_success[OF m] None
    by (simp add: try_block_error_logs modelOutput_error_logs trace_defs no_trace_logs)
next
  case (Some e)
  show ?thesis
    using execute_escaping[OF Some] Some
    by (simp add: catch_block_error_logs try_block_error_logs modelOutput_error_logs
          trace_defs no_trace_logs)
qed

lemma output_error_from_invoke:
  assumes "validated_output X a = Inl e"
  shows "invoke X (assemble_messages a) = Inl e"
  using assms
  by (auto simp: validated_output_def snd_get_modelOutput split: if_splits sum.splits)

lemma execute_outcome_cases:
  "snd (execute X a) =
     (case snd (try_block X a no_trace) of
        Inr output \<Rightarrow> Inr output
      | Inl e \<Rightarrow> snd (catch_block X a e (fst (try_block X a no_trace))))"
  by (simp add: execute_def split: prod.splits sum.splits)

lemma catch_block_kind:
  "propagated_kind (snd (catch_block X a e t)) =
     Some (first_match (priority_order X) Unclassified e)"
  by (simp add: catch_block_def priority_order_def Let_def)


lemma catch_block_typed_trace: "typed_error X e \<Longrightarrow> fst (catch_block X a e t) = t"
  by (auto simp: catch_block_def typed_error_def Let_def)


section \<open>The error classifier\<close>

text \<open>
  C2. Whatever error escapes the body of the step, the failure that \<open>execute\<close>
  propagates has the kind that the ordered search of the specification finds: the tests
  are tried in the order authentication, bad request, cancelled, forbidden, the first one
  that accepts the error decides, and an error that none accepts is unclassified.
\<close>

theorem classification_priority:
  assumes "snd (try_block X a no_trace) = Inl e"
  shows "propagated_kind (snd (execute X a)) =
           Some (first_match (priority_order X) Unclassified e)"
  using assms by (simp add: execute_outcome_cases catch_block_kind)

text \<open>
  An error that both the authentication test and the forbidden test accept is propagated
  as an authentication failure.
\<close>

theorem classification_priority_witness:
  "snd (try_block (example_externals [auth_error] [] [] [auth_error] (Inr http_500) (Inl auth_error))
                  (example_agent 3 None False False example_history) no_trace) = Inl auth_error
   \<and> isForbiddenError (example_externals [auth_error] [] [] [auth_error] (Inr http_500) (Inl auth_error))
        auth_error
   \<and> propagated_kind
        (snd (execute (example_externals [auth_error] [] [] [auth_error] (Inr http_500) (Inl auth_error))
                      (example_agent 3 None False False example_history)))
      = Some Authentication"
  using classification_priority
          [of "example_externals [auth_error] [] [] [auth_error] (Inr http_500) (Inl auth_error)"
              "example_agent 3 None False False example_history" auth_error]
  by (simp add: example_defs step_defs priority_order_def)

section \<open>The successful step\<close>

text \<open>
  C6. A step that obtains a validated output emits, after its step-start event, exactly
  one step-ok event, and no other event; the message of the step-ok event is the filtered
  \<open>final_answer\<close> when \<open>done\<close> is true and the filtered \<open>next_steps\<close> when it is
  false.
\<close>

theorem step_ok_event_message:
  assumes "validated_output X a = Inr (Some m)"
  shows "events (fst (execute X a)) =
           [Event PLANNER STEP_START ''Planning...'',
            Event PLANNER STEP_OK (if done_flag m then filterExternalContent X (final_answer m)
                                   else filterExternalContent X (next_steps m))]
         \<and> count_events STEP_OK (fst (execute X a)) = 1"
  using try_block_success(2)[OF assms] execute_success[OF assms]
  by (simp add: count_events_def)

theorem step_ok_event_message_witness:
  "validated_output (example_externals [] [] [] [] (Inr http_500) (Inr (Some (example_plan True))))
                    (example_agent 0 server_first True False example_history)
     = Inr (Some (example_plan True))
   \<and> events (fst (execute (example_externals [] [] [] [] (Inr http_500) (Inr (Some (example_plan True))))
                           (example_agent 0 server_first True False example_history)))
     = [Event PLANNER STEP_START ''Planning...'', Event PLANNER STEP_OK ''FINAL'']
   \<and> validated_output (example_externals [] [] [] [] (Inr http_500) (Inr (Some (example_plan False))))
                      (example_agent 1 None True False example_history)
     = Inr (Some (example_plan False))
   \<and> events (fst (execute (example_externals [] [] [] [] (Inr http_500) (Inr (Some (example_plan False))))
                           (example_agent 1 None True False example_history)))
     = [Event PLANNER STEP_START ''Planning...'', Event PLANNER STEP_OK ''n'']"
  using step_ok_event_message
          [of "example_externals [] [] [] [] (Inr http_500) (Inr (Some (example_plan True)))"
              "example_agent 0 server_first True False example_history" "example_plan True"]
        step_ok_event_message
          [of "example_externals [] [] [] [] (Inr http_500) (Inr (Some (example_plan False)))"
              "example_agent 1 None True False example_history" "example_plan False"]
  by (simp add: example_defs step_defs plannerOutputSchema_parse_def)

text \<open>
  C9. The result that \<open>execute\<close> returns for a validated output has the \<open>done\<close> and
  \<open>web_task\<close> fields of that output, and each of its five text fields is the filtered
  text of the same field of the output; the record has no other field.
\<close>

theorem cleaned_plan_frame:
  assumes "validated_output X a = Inr (Some m)"
  shows "\<exists>r. snd (execute X a) = Inr \<lparr>output_id = agent_id a, result = Some r, error = None\<rparr>
           \<and> done_flag r = done_flag m \<and> web_task r = web_task m
           \<and> observation r = filterExternalContent X (observation m)
           \<and> challenges r = filterExternalContent X (challenges m)
           \<and> reasoning r = filterExternalContent X (reasoning m)
           \<and> final_answer r = filterExternalContent X (final_answer m)
           \<and> next_steps r = filterExternalContent X (next_steps m)"
  using execute_success[OF assms] by (simp add: clean_plan_def)

theorem cleaned_plan_frame_witness:
  "validated_output (example_externals [] [] [] [] (Inl abort_error) (Inr (Some (example_plan True))))
                    (example_agent 2 server_first False False example_history)
     = Inr (Some (example_plan True))
   \<and> snd (execute (example_externals [] [] [] [] (Inl abort_error) (Inr (Some (example_plan True))))
                   (example_agent 2 server_first False False example_history))
     = Inr \<lparr>output_id = ''planner'',
            result = Some \<lparr>observation = ''o'', challenges = ''c'', done_flag = True,
                           next_steps = ''n'', final_answer = ''FINAL'', reasoning = ''r'',
                           web_task = False\<rparr>,
            error = None\<rparr>"
  using cleaned_plan_frame
          [of "example_externals [] [] [] [] (Inl abort_error) (Inr (Some (example_plan True)))"
              "example_agent 2 server_first False False example_history" "example_plan True"]
  by (simp add: example_defs step_defs)

section \<open>The step outcome\<close>

text \<open>
  C7. An outcome that \<open>execute\<close> returns has exactly one of \<open>result\<close> and
  \<open>error\<close> populated: never both and never neither.
\<close>

theorem result_xor_error:
  assumes "snd (execute X a) = Inr output"
  shows "(result output = None) \<noteq> (error output = None)"
proof (cases "validated_output X a")
  case (Inl e)
  then show ?thesis
    using assms execute_failure[OF try_block_failure(1)[OF Inl] ]
    by (auto simp: catch_block_def Let_def split: if_splits)
next
  case (Inr r)
  show ?thesis
  proof (cases r)
    case None
    then show ?thesis
      using assms Inr execute_failure[OF try_block_null(1)]
      by (auto simp: catch_block_def Let_def split: if_splits)
  next
    case (Some m)
    then show ?thesis
      using assms Inr execute_success[of X a m] by auto
  qed
qed

text \<open>An outcome with \<open>error\<close> alone (the LLM returned nothing) and one with \<open>result\<close> alone.\<close>

theorem result_xor_error_witness:
  "snd (execute (example_externals [] [] [] [] (Inr http_500) (Inr None)) later_step)
     = Inr \<lparr>output_id = ''planner'', result = None,
            error = Some ''Failed to validate planner output''\<rparr>
   \<and> (result \<lparr>output_id = ''planner'', result = None,
               error = Some ''Failed to validate planner output''\<rparr> = None)
      \<noteq> (error \<lparr>output_id = ''planner'', result = None,
                 error = Some ''Failed to validate planner output''\<rparr> = None)
   \<and> snd (execute server_down_llm_plans later_step)
     = Inr \<lparr>output_id = ''planner'', result = Some (clean_plan server_down_llm_plans (example_plan False)),
            error = None\<rparr>
   \<and> (result \<lparr>output_id = ''planner'',
               result = Some (clean_plan server_down_llm_plans (example_plan False)),
               error = None\<rparr> = None)
      \<noteq> (error \<lparr>output_id = ''planner'',
                 result = Some (clean_plan server_down_llm_plans (example_plan False)),
                 error = None\<rparr> = None)"
  using result_xor_error
          [of "example_externals [] [] [] [] (Inr http_500) (Inr None)" later_step
              "\<lparr>output_id = ''planner'', result = None,
                error = Some ''Failed to validate planner output''\<rparr>"]
        result_xor_error
          [of server_down_llm_plans later_step
              "\<lparr>output_id = ''planner'',
                result = Some (clean_plan server_down_llm_plans (example_plan False)),
                error = None\<rparr>"]
  by (simp add: example_defs step_defs)

section \<open>The remote planning path and its fallback\<close>




section \<open>Cancellation\<close>

text \<open>
  C3, as the code has it. When the LLM call of a step, made directly or as the fallback,
  throws an error that the abort test accepts and that neither the authentication test nor
  the bad-request test accepts, the step throws \<open>RequestCancelledError\<close> with the
  message of that error, its only event is the step-start event, and the \<^verbatim>\<open>catch\<close>
  adds nothing to what the step has emitted and logged. Unless the remote call was itself
  aborted, the error-level log entries of the step are then the entry of a failed remote
  call, if there was one, and no other.
\<close>

theorem llm_abort_is_cancelled:
  assumes "validated_output X a = Inl e"
    and "isAbortedError X e"
    and "\<not> isAuthenticationError X e"
    and "\<not> isBadRequestError X e"
  shows "invoke X (assemble_messages a) = Inl e
       \<and> snd (execute X a) = Inl (RequestCancelledError (errorMessage_of e))
       \<and> events (fst (execute X a)) = [Event PLANNER STEP_START ''Planning...'']
       \<and> fst (execute X a) = fst (try_block X a no_trace)
       \<and> (if remote_aborted X a then True
           else filter is_error_entry (logs (fst (execute X a))) = server_failure_log X a)"
proof -
  have t: "typed_error X e" using assms(2) by (simp add: typed_error_def)
  have esc: "escaping_error (validated_output X a) = Some e"
    using assms(1) by (simp add: escaping_error_def)
  have "snd (execute X a) = Inl (RequestCancelledError (errorMessage_of e))"
    using assms by (simp add: execute_outcome catch_block_def Let_def)
  moreover have "events (fst (execute X a)) = [Event PLANNER STEP_START ''Planning...'']"
    using assms(1) t by (simp add: execute_events)
  moreover have "fst (execute X a) = fst (try_block X a no_trace)"
    using execute_escaping[OF esc] t by (simp add: catch_block_typed_trace)
  moreover have "filter is_error_entry (logs (fst (execute X a))) = server_failure_log X a"
    using assms(1) t by (simp add: execute_error_logs escaping_error_def)
  ultimately show ?thesis using output_error_from_invoke[OF assms(1)] by simp
qed

theorem llm_abort_is_cancelled_witness:
  "validated_output llm_call_aborted later_step = Inl abort_error
   \<and> isAbortedError llm_call_aborted abort_error
   \<and> \<not> isAuthenticationError llm_call_aborted abort_error
   \<and> \<not> isBadRequestError llm_call_aborted abort_error
   \<and> execute llm_call_aborted later_step
       = (\<lparr>events = [Event PLANNER STEP_START ''Planning...''], logs = [],
           calls = [Invoke [SystemMessage (Str ''You are a planner''), HumanMessage (Str ''task''),
                            HumanMessage (Parts [TextSegment ''state '',
                                                 ImageUrlSegment ''data:image/png'',
                                                 TextSegment ''of the page''])] ]\<rparr>,
          Inl (RequestCancelledError ''The operation was aborted''))
   \<and> validated_output llm_call_aborted first_step = Inl abort_error
   \<and> \<not> remote_aborted llm_call_aborted first_step
   \<and> snd (execute llm_call_aborted first_step)
       = Inl (RequestCancelledError ''The operation was aborted'')
   \<and> filter is_error_entry (logs (fst (execute llm_call_aborted first_step)))
       = [LogError [Text ''Server planning failed: '',
                    Rendered (Js (JsError ''Error'' ''Server returned 500: Internal Server Error''))] ]"
  using llm_abort_is_cancelled [of llm_call_aborted later_step abort_error]
        llm_abort_is_cancelled [of llm_call_aborted first_step abort_error]
  by (simp add: example_defs step_defs remote_aborted_def server_failure_log_def show_nat.simps
        char_eval)

text \<open>
  C3 as stated fails for an abort error that the authentication test also accepts: that
  test comes first in the \<^verbatim>\<open>catch\<close>, and the step throws an authentication error
  instead of a cancellation.
\<close>

theorem abort_reclassified_counterexample:
  "isAbortedError overlapping_tests aborted_401
   \<and> invoke overlapping_tests (assemble_messages later_step) = Inl aborted_401
   \<and> snd (execute overlapping_tests later_step)
       = Inl (ChatModelAuthError ''Aborted: 401 authentication failed'' aborted_401)
   \<and> propagated_kind (snd (execute overlapping_tests later_step)) \<noteq> Some Cancelled"
  by (simp add: example_defs step_defs)

text \<open>
  The statement above says nothing about an abort of the remote request. The inner
  \<^verbatim>\<open>catch\<close> (lines 105 to 110) treats it like any other failure of the remote path: it
  is logged with \<^verbatim>\<open>logger.error\<close> and the LLM is called, so that the step can end with
  a step-ok event and a result although the request was cancelled. The outer
  \<^verbatim>\<open>catch\<close> (lines 151 and 152) rethrows an abort without logging it, and line 183
  binds the request to the cancellation signal.
\<close>

lemma remote_abort_swallowed:
  "isAbortedError fetch_aborted_llm_plans abort_error
   \<and> fetch fetch_aborted_llm_plans (api_url first_step) = Inl abort_error
   \<and> events (fst (execute fetch_aborted_llm_plans first_step))
       = [Event PLANNER STEP_START ''Planning...'', Event PLANNER STEP_OK ''n'']
   \<and> filter is_error_entry (logs (fst (execute fetch_aborted_llm_plans first_step)))
       = [LogError [Text ''Server planning failed: '', Rendered (Js abort_error)] ]
   \<and> \<not> isl (snd (execute fetch_aborted_llm_plans first_step))"
  by (simp add: example_defs step_defs api_url_def fetch_aborted_llm_plans_def)


section \<open>Removing images from the last message\<close>

lemma foldl_append_text: "foldl append_text acc segs = acc @ concat (text_segments segs)"
proof (induction segs arbitrary: acc)
  case Nil
  then show ?case by simp
next
  case (Cons seg segs)
  then show ?case by (cases seg) simp_all
qed

lemma update_last: "xs \<noteq> [] \<Longrightarrow> xs[length xs - 1 := x] = butlast xs @ [x]"
  by (cases xs rule: rev_cases) simp_all

text \<open>
  C4, as the code has it. With the global vision flag set and the planner's vision flag
  unset, the assembled sequence is the sequence of lines 72 to 74 with its final message
  replaced by a new human message: of a segmented final message it carries the texts of
  the text segments, concatenated in their order, every other segment being dropped; of a
  final message with string content it carries that string, so the content is unchanged
  and the message is unchanged exactly when it was a human message. The messages before
  the final one are kept.
\<close>

theorem vision_strip:
  assumes "useVision (options (ctx a))" and "\<not> useVisionForPlanner (options (ctx a))"
  shows "assemble_messages a =
           butlast (history_messages a) @
           [HumanMessage (Str (case content_of (last (history_messages a)) of
                                 Parts segs \<Rightarrow> concat (text_segments segs)
                               | Str s \<Rightarrow> s))]
       \<and> (case content_of (last (history_messages a)) of
            Parts segs \<Rightarrow> True
          | Str s \<Rightarrow> content_of (last (assemble_messages a)) = Str s
                     \<and> (last (assemble_messages a) = last (history_messages a))
                        = (last (history_messages a) = HumanMessage (Str s)))"
proof -
  have ne: "history_messages a \<noteq> []" by (simp add: history_messages_def)
  have "assemble_messages a =
           butlast (history_messages a) @
           [HumanMessage (Str (case content_of (last (history_messages a)) of
                                 Parts segs \<Rightarrow> concat (text_segments segs)
                               | Str s \<Rightarrow> s))]"
    using assms ne update_last[OF ne]
    unfolding assemble_messages_def Let_def history_messages_def[symmetric]
    by (simp add: last_conv_nth foldl_append_text split: content.splits)
  then show ?thesis
    by (auto split: content.splits)
qed

theorem vision_strip_witness:
  "useVision (options (ctx (example_agent 1 None True False example_history)))
   \<and> \<not> useVisionForPlanner (options (ctx (example_agent 1 None True False example_history)))
   \<and> assemble_messages (example_agent 1 None True False example_history)
       = [SystemMessage (Str ''You are a planner''), HumanMessage (Str ''task''),
          HumanMessage (Str ''state of the page'')]"
  using vision_strip [of "example_agent 1 None True False example_history"]
  by (simp add: example_defs history_messages_def)

text \<open>
  C4 as stated fails for a final message with string content that is not a human message:
  an AI message at the end of the history leaves the step as a human message.
\<close>

theorem vision_strip_changes_class_counterexample:
  "useVision (options (ctx ai_message_last)) \<and> \<not> useVisionForPlanner (options (ctx ai_message_last))
   \<and> last (history_messages ai_message_last) = AIMessage (Str ''done'')
   \<and> last (assemble_messages ai_message_last) = HumanMessage (Str ''done'')
   \<and> last (assemble_messages ai_message_last) \<noteq> last (history_messages ai_message_last)"
  by (simp add: example_defs step_defs history_messages_def)

section \<open>The output schema\<close>

lemma toLowerCase_char_cases:
  assumes "97 \<le> (of_char c' :: nat)" "(of_char c' :: nat) \<le> 122"
  shows "toLowerCase_char c = c' \<longleftrightarrow> c = c' \<or> c = toUpperCase_char c'"
  using assms unfolding toLowerCase_char_def toUpperCase_char_def Let_def
  by (auto split: if_splits)

lemma toLowerCase_spellings:
  "\<forall>c \<in> set w. 97 \<le> (of_char c :: nat) \<and> (of_char c :: nat) \<le> 122 \<Longrightarrow>
   toLowerCase s = w \<longleftrightarrow> s \<in> set (spellings w)"
proof (induction w arbitrary: s)
  case Nil
  then show ?case by (simp add: toLowerCase_def)
next
  case (Cons c w)
  show ?case
  proof (cases s)
    case Nil
    then show ?thesis by (auto simp: toLowerCase_def)
  next
    case (Cons d s')
    have "toLowerCase s' = w \<longleftrightarrow> s' \<in> set (spellings w)"
      using Cons.IH Cons.prems by simp
    moreover have "toLowerCase_char d = c \<longleftrightarrow> d = c \<or> d = toUpperCase_char c"
      using Cons.prems by (intro toLowerCase_char_cases) simp_all
    ultimately show ?thesis
      using Cons by (auto simp: toLowerCase_def)
  qed
qed

lemma true_spellings: "toLowerCase s = ''true'' \<longleftrightarrow> s \<in> set (spellings ''true'')"
  by (rule toLowerCase_spellings) simp

lemma false_spellings: "toLowerCase s = ''false'' \<longleftrightarrow> s \<in> set (spellings ''false'')"
  by (rule toLowerCase_spellings) simp

lemma boolean_transform_coerced:
  "boolean_transform s = (case coerced (JString s) of Some b \<Rightarrow> Inr b | None \<Rightarrow> Inl invalid_boolean_string)"
  by (simp add: boolean_transform_def true_spellings false_spellings invalid_boolean_string_def
        del: spellings.simps)

lemma z_union_coerced:
  assumes "obj key = Some v" "boolean_or_string v"
  shows "z_boolean_or_string obj key issues =
           (case coerced v of Some b \<Rightarrow> Inr (issues, b) | None \<Rightarrow> Inl invalid_boolean_string)"
  using assms
  by (cases v) (simp_all add: z_boolean_or_string_def boolean_transform_coerced
      del: coerced.simps(2) split: option.splits)

lemma z_string_accepts: "obj key = Some (JString s) \<Longrightarrow> z_string obj key issues = (issues, s)"
  by (simp add: z_string_def)

text \<open>
  C5. For a raw record whose five text fields are strings, whatever strings (the empty one
  too), and whose \<open>done\<close> and \<open>web_task\<close> fields are each a boolean or a string:
  the validator returns the record with the text fields as given and each boolean field
  coerced (a literal boolean to itself, a string spelling \<open>true\<close> or \<open>false\<close> in any
  mix of cases to that boolean) when both boolean fields are acceptable, and throws when
  either is any other string.
\<close>

theorem schema_coercion:
  assumes "map_of props ''observation'' = Some (JString v_observation)"
    and "map_of props ''challenges'' = Some (JString v_challenges)"
    and "map_of props ''next_steps'' = Some (JString v_next_steps)"
    and "map_of props ''final_answer'' = Some (JString v_final_answer)"
    and "map_of props ''reasoning'' = Some (JString v_reasoning)"
    and "map_of props ''done'' = Some d" and "boolean_or_string d"
    and "map_of props ''web_task'' = Some w" and "boolean_or_string w"
  shows "plannerOutputSchema_parse (JObject props) =
           (case (coerced d, coerced w) of
              (Some v_done, Some v_web_task) \<Rightarrow>
                Inr \<lparr>observation = v_observation, challenges = v_challenges,
                     done_flag = v_done, next_steps = v_next_steps,
                     final_answer = v_final_answer, reasoning = v_reasoning,
                     web_task = v_web_task\<rparr>
            | _ \<Rightarrow> Inl (Js invalid_boolean_string))"
proof -
  have d: "z_boolean_or_string (map_of props) ''done'' issues =
             (case coerced d of Some b \<Rightarrow> Inr (issues, b) | None \<Rightarrow> Inl invalid_boolean_string)"
    for issues
    using assms(6,7) by (rule z_union_coerced)
  have w: "z_boolean_or_string (map_of props) ''web_task'' issues =
             (case coerced w of Some b \<Rightarrow> Inr (issues, b) | None \<Rightarrow> Inl invalid_boolean_string)"
    for issues
    using assms(8,9) by (rule z_union_coerced)
  show ?thesis
    using assms(1-5)
    by (simp add: plannerOutputSchema_parse_def z_string_accepts d w split: option.splits)
qed

theorem schema_coercion_witness:
  "plannerOutputSchema_parse
     (JObject [(''observation'', JString ''o''), (''challenges'', JString []),
               (''done'', JString ''TRUE''), (''next_steps'', JString ''n''),
               (''final_answer'', JString ''FINAL''), (''reasoning'', JString ''r''),
               (''web_task'', JString ''false'')])
     = Inr \<lparr>observation = ''o'', challenges = [], done_flag = True, next_steps = ''n'',
            final_answer = ''FINAL'', reasoning = ''r'', web_task = False\<rparr>
   \<and> plannerOutputSchema_parse
       (JObject [(''observation'', JString ''o''), (''challenges'', JString []),
                 (''done'', JBool False), (''next_steps'', JString ''n''),
                 (''final_answer'', JString ''FINAL''), (''reasoning'', JString ''r''),
                 (''web_task'', JString ''yes'')])
       = Inl (Js (JsError ''Error'' ''Invalid boolean string''))"
  using schema_coercion
          [of "[(''observation'', JString ''o''), (''challenges'', JString []),
                (''done'', JString ''TRUE''), (''next_steps'', JString ''n''),
                (''final_answer'', JString ''FINAL''), (''reasoning'', JString ''r''),
                (''web_task'', JString ''false'')]"
              "''o''" "[]" "''n''" "''FINAL''" "''r''" "JString ''TRUE''" "JString ''false''"]
        schema_coercion
          [of "[(''observation'', JString ''o''), (''challenges'', JString []),
                (''done'', JBool False), (''next_steps'', JString ''n''),
                (''final_answer'', JString ''FINAL''), (''reasoning'', JString ''r''),
                (''web_task'', JString ''yes'')]"
              "''o''" "[]" "''n''" "''FINAL''" "''r''" "JBool False" "JString ''yes''"]
  by (simp add: toUpperCase_char_def char_eval invalid_boolean_string_def)

section \<open>First-run initialization\<close>

text \<open>
  C10. \<open>ensureDefaultConfiguration\<close> resolves whatever its store operations do, a
  thrown error included; and when the provider store already holds a provider it makes no
  write to either store.
\<close>

theorem never_rejects:
  "snd (ensureDefaultConfiguration E) = Inr ()
   \<and> (\<forall>providers. getAllProviders E = Inr providers \<longrightarrow> providers \<noteq> [] \<longrightarrow>
        filter is_write (store_calls (fst (ensureDefaultConfiguration E))) = [])"
proof -
  have "snd (ensureDefaultConfiguration E) = Inr ()"
    by (simp add: ensureDefaultConfiguration_def split: prod.splits sum.splits)
  moreover have "filter is_write (store_calls (fst (ensureDefaultConfiguration E))) = []"
    if "getAllProviders E = Inr providers" "providers \<noteq> []" for providers
    using that
    by (simp add: ensureDefaultConfiguration_def setup_defaults_def Let_def
          store_called_def init_info_def)
  ultimately show ?thesis by blast
qed

text \<open>
  With one provider present nothing is written, although every write would throw; with
  no provider and a provider store that refuses the write, the method still resolves.
\<close>

theorem never_rejects_witness:
  "getAllProviders (example_stores (Inr [(''openai'', example_provider)]) (Some quota_error)
                                   (Some quota_error))
     = Inr [(''openai'', example_provider)]
   \<and> [(''openai'', example_provider)] \<noteq> []
   \<and> ensureDefaultConfiguration
       (example_stores (Inr [(''openai'', example_provider)]) (Some quota_error) (Some quota_error))
       = (\<lparr>init_logs = [LogInfo [Text ''Providers already configured, skipping default setup''] ],
           store_calls = [GetAllProviders]\<rparr>,
          Inr ())
   \<and> snd (ensureDefaultConfiguration (example_stores (Inr []) (Some quota_error) None)) = Inr ()"
  using never_rejects
          [of "example_stores (Inr [(''openai'', example_provider)]) (Some quota_error)
                              (Some quota_error)"]
        never_rejects [of "example_stores (Inr []) (Some quota_error) None"]
  by (simp add: example_defs ensureDefaultConfiguration_def setup_defaults_def Let_def
        store_called_def init_info_def init_error_def)

end
